theory Spec2Isabelle
  imports Complex_Main "HOL-Library.Word" "HOL-Library.Sublist"
begin

section \<open>JavaScript strings and numbers\<close>

text \<open>
  Strings are character lists. \<open>startsWith\<close> and \<open>endsWith\<close> are the methods of
  \<open>String.prototype\<close>; \<open>matchesAddress\<close> is the regular expression
  \<^verbatim>\<open>/^0x[a-fA-F0-9]{40}$/\<close>; \<open>toLowerCase\<close> is the method on strings of
  ASCII characters (hexadecimal identifiers are such strings).
  A JavaScript number is modelled by the rational it denotes: \<open>Number(b)\<close> of a
  BigInt is the integer itself and \<open>/\<close> is exact division; the rounding to
  binary64 is not part of the model.
\<close>

definition startsWith :: "string \<Rightarrow> string \<Rightarrow> bool" where
  "startsWith s p = prefix p s"

definition endsWith :: "string \<Rightarrow> string \<Rightarrow> bool" where
  "endsWith s p = suffix p s"

definition isHexDigit :: "char \<Rightarrow> bool" where
  "isHexDigit c = (c \<in> set ''0123456789abcdefABCDEF'')"

definition matchesAddress :: "string \<Rightarrow> bool" where
  "matchesAddress s =
     (case s of
        c0 # c1 # ds \<Rightarrow> c0 = CHR ''0'' \<and> c1 = CHR ''x'' \<and> length ds = 40 \<and> list_all isHexDigit ds
      | _ \<Rightarrow> False)"

definition lowerChar :: "char \<Rightarrow> char" where
  "lowerChar c =
     (case map_of (zip ''ABCDEFGHIJKLMNOPQRSTUVWXYZ'' ''abcdefghijklmnopqrstuvwxyz'') c of
        Some d \<Rightarrow> d
      | None \<Rightarrow> c)"

definition toLowerCase :: "string \<Rightarrow> string" where
  "toLowerCase s = map lowerChar s"

definition digitChar :: "nat \<Rightarrow> char" where
  "digitChar d = ''0123456789'' ! d"

fun showNat :: "nat \<Rightarrow> string" where
  "showNat n = (if n < 10 then [digitChar n] else showNat (n div 10) @ [digitChar (n mod 10)])"

definition showInt :: "int \<Rightarrow> string" where
  "showInt i = (if i < 0 then CHR ''-'' # showNat (nat (- i)) else showNat (nat i))"

section \<open>Data received from the chain and from the allocation API\<close>

text \<open>The tuple returned by \<open>entityStateByID\<close>, as \<open>CONTRACT_ABI\<close> declares it.\<close>

record entity_state =
  addr :: string
  entityID :: string
  acceptedAmount :: "64 word"
  bidTimestamp :: "32 word"
  refunded :: bool
  cancelled :: bool
  activeBid :: "64 word \<times> 32 word"

text \<open>
  The body of the allocation API, per its interface: an object whose fields
  \<open>usdt_allocation\<close>, \<open>token_allocation\<close> and \<open>clearing_price\<close> are numbers,
  \<open>null\<close> or absent (\<open>None\<close> for both).
\<close>

record api_data =
  usdt_allocation :: "rat option"
  token_allocation :: "rat option"
  clearing_price :: "rat option"

text \<open>
  What \<open>fetch\<close> gives: it rejects with an error message, or resolves to a response
  whose \<open>json()\<close> and \<open>text()\<close> each reject (\<open>Inl\<close> the message) or resolve.
\<close>

record 'j http_response =
  status :: nat
  json :: "string + 'j"
  text_body :: "string + string"

datatype 'j fetch_outcome = FetchRejects string | FetchResolves "'j http_response"

definition ok :: "'j http_response \<Rightarrow> bool" where
  "ok r = (200 \<le> status r \<and> status r \<le> 299)"

text \<open>\<open>getEnsAddress\<close> throws, or returns an address or \<open>null\<close>.\<close>

datatype ens_outcome = EnsThrows string | EnsReturns "string option"

text \<open>
  The remote services of one invocation. A contract read throws (\<open>Inl\<close> the
  message of the error) or returns. \<open>DEV\<close> is \<open>import.meta.env.DEV\<close>.
\<close>

record env =
  getEnsAddress :: "string \<Rightarrow> ens_outcome"
  entityByAddress :: "string \<Rightarrow> string + string"
  entityStateByID :: "string \<Rightarrow> string + entity_state"
  fetch :: "string \<Rightarrow> (api_data option) fetch_outcome"
  DEV :: bool

section \<open>The component state and the effects of an invocation\<close>

text \<open>
  The object passed to \<open>setResult\<close>; a field the object literal does not have
  is \<open>None\<close>. Its fields \<open>entityID\<close>, \<open>refunded\<close>, \<open>cancelled\<close> and
  \<open>bidTimestamp\<close> carry the prefix \<open>result\<close>, the names being those of the
  fields of the contract's tuple.
\<close>

record result =
  found :: bool
  message :: "string option"
  amount :: "rat option"
  resultEntityID :: string
  resultRefunded :: "bool option"
  resultCancelled :: "bool option"
  resultBidTimestamp :: "32 word option"
  apiAllocation :: "api_data option"
  apiError :: "string option"

datatype call =
    GetEnsAddress string
  | EntityByAddress string
  | EntityStateByID string
  | Fetch string
  | GetBlockNumber
  | GetLogs int int

text \<open>
  An invocation is the sequence of its state setter calls and remote calls, in
  program order. The leading pictograph of a progress message is left out.
\<close>

datatype 'r effect =
    SetError string
  | SetLoading bool
  | SetResult "'r option"
  | SetProgress string
  | Call call

record 'r ui =
  loading :: bool
  result :: "'r option"
  error :: string
  progress :: string

fun applyEffect :: "'r ui \<Rightarrow> 'r effect \<Rightarrow> 'r ui" where
  "applyEffect s (SetError e) = s\<lparr>error := e\<rparr>"
| "applyEffect s (SetLoading b) = s\<lparr>loading := b\<rparr>"
| "applyEffect s (SetResult r) = s\<lparr>result := r\<rparr>"
| "applyEffect s (SetProgress p) = s\<lparr>progress := p\<rparr>"
| "applyEffect s (Call c) = s"

definition run :: "'r effect list \<Rightarrow> 'r ui \<Rightarrow> 'r ui" where
  "run es s = foldl applyEffect s es"

definition calls :: "'r effect list \<Rightarrow> call list" where
  "calls es = concat (map (\<lambda>e. case e of Call c \<Rightarrow> [c] | _ \<Rightarrow> []) es)"

section \<open>The allocation check with the confirmed allocation of the API\<close>

text \<open>
  \<open>checkAllocations\<close> of the \<open>App\<close> component, in the revision that reads the
  state of the entity from the contract and then asks the allocation API. The
  function is given in four parts, in program order: the resolution of the
  input, the request to the API, the classification, and the chain reads that
  lead from the one to the others.
\<close>

text \<open>The messages passed to \<open>setError\<close>, named after the failure they report.\<close>

definition PromptMessage :: string where
  "PromptMessage = ''Please enter an address or ENS name''"

definition InvalidAddressFormat :: string where
  "InvalidAddressFormat = ''Invalid Ethereum address format''"

definition NameNotFound :: string where
  "NameNotFound = ''ENS name not found or not resolved''"

definition NameResolutionTransportError :: "string \<Rightarrow> string" where
  "NameResolutionTransportError msg = ''Failed to resolve ENS name: '' @ msg"

definition ChainReadError :: "string \<Rightarrow> string" where
  "ChainReadError msg = ''Error: '' @ msg"

text \<open>
  The resolution of the input inside \<open>checkAllocations\<close>: its effects, and the
  resolved address, or \<open>None\<close> where the function returns early.
\<close>

definition resolveIdentity :: "env \<Rightarrow> string \<Rightarrow> result effect list \<times> string option" where
  "resolveIdentity env address =
     (if \<not> startsWith address ''0x'' \<or> endsWith address ''.eth'' then
        (case getEnsAddress env address of
           EnsReturns resolvedAddress \<Rightarrow>
             (if resolvedAddress = None \<or> resolvedAddress = Some [] then
                ([SetProgress ''Resolving ENS name...'', Call (GetEnsAddress address),
                  SetError NameNotFound, SetLoading False, SetProgress []], None)
              else
                ([SetProgress ''Resolving ENS name...'', Call (GetEnsAddress address)],
                 resolvedAddress))
         | EnsThrows msg \<Rightarrow>
             ([SetProgress ''Resolving ENS name...'', Call (GetEnsAddress address),
               SetError (NameResolutionTransportError msg), SetLoading False, SetProgress []],
              None))
      else if \<not> matchesAddress address then
        ([SetError InvalidAddressFormat, SetLoading False, SetProgress []], None)
      else ([], Some address))"

definition apiUrl :: "env \<Rightarrow> string \<Rightarrow> string" where
  "apiUrl env eid =
     (if DEV env then ''/api/allocation?entityId='' @ eid
      else ''/.netlify/functions/allocation?entityId='' @ eid)"

text \<open>The inner \<open>try\<close> around the request to the API: \<open>(apiAllocation, apiError)\<close>.\<close>

definition fetchApiAllocation :: "env \<Rightarrow> string \<Rightarrow> api_data option \<times> string option" where
  "fetchApiAllocation env eid =
     (case fetch env (apiUrl env eid) of
        FetchRejects msg \<Rightarrow> (None, Some msg)
      | FetchResolves apiResponse \<Rightarrow>
          (if ok apiResponse then
             (case json apiResponse of
                Inr apiData \<Rightarrow> (apiData, None)
              | Inl msg \<Rightarrow> (None, Some msg))
           else
             (case text_body apiResponse of
                Inr errorText \<Rightarrow>
                  (None, Some (''API returned status '' @ showNat (status apiResponse)))
              | Inl msg \<Rightarrow> (None, Some msg))))"

text \<open>\<open>x && Number(x) > 0\<close> for a field \<open>x\<close> of the API's body.\<close>

definition positiveField :: "rat option \<Rightarrow> bool" where
  "positiveField x = (case x of None \<Rightarrow> False | Some v \<Rightarrow> v \<noteq> 0 \<and> v > 0)"

definition hasApiAllocation :: "api_data option \<Rightarrow> bool" where
  "hasApiAllocation a =
     (case a of
        None \<Rightarrow> False
      | Some d \<Rightarrow> positiveField (usdt_allocation d) \<or> positiveField (token_allocation d))"


text \<open>The classification of what the two sources returned, and the object given to \<open>setResult\<close>.\<close>

definition reconcile ::
  "string \<Rightarrow> entity_state \<Rightarrow> api_data option \<Rightarrow> string option \<Rightarrow> result" where
  "reconcile eid entityState apiAlloc apiErr =
     (let acceptedAmountN = (of_nat (unat (acceptedAmount entityState)) :: rat);
          amountUSDT = acceptedAmountN / 1000000
      in if acceptedAmountN = 0 \<and> \<not> hasApiAllocation apiAlloc then
           \<lparr>found = False, message = Some ''No allocation detected'', amount = None,
            resultEntityID = eid, resultRefunded = None, resultCancelled = None,
            resultBidTimestamp = None, apiAllocation = apiAlloc, apiError = apiErr\<rparr>
         else
           \<lparr>found = True, message = None, amount = Some amountUSDT,
            resultEntityID = eid, resultRefunded = Some (refunded entityState),
            resultCancelled = Some (cancelled entityState),
            resultBidTimestamp = Some (bidTimestamp entityState),
            apiAllocation = apiAlloc, apiError = apiErr\<rparr>)"

text \<open>
  The rest of the outer \<open>try\<close>, from the resolved address on: its effects, and
  the message of the error thrown (\<open>Inl\<close>) or the object for \<open>setResult\<close>.
\<close>

definition lookupAllocation :: "env \<Rightarrow> string \<Rightarrow> result effect list \<times> (string + result)" where
  "lookupAllocation env resolvedAddress =
     (case entityByAddress env resolvedAddress of
        Inl msg \<Rightarrow>
          ([SetProgress ''Fetching entityID...'', Call (EntityByAddress resolvedAddress)], Inl msg)
      | Inr eid \<Rightarrow>
          (case entityStateByID env eid of
             Inl msg \<Rightarrow>
               ([SetProgress ''Fetching entityID...'', Call (EntityByAddress resolvedAddress),
                 SetProgress ''Fetching allocation data...'', Call (EntityStateByID eid)], Inl msg)
           | Inr entityState \<Rightarrow>
               (case fetchApiAllocation env eid of
                  (apiAlloc, apiErr) \<Rightarrow>
                    ([SetProgress ''Fetching entityID...'', Call (EntityByAddress resolvedAddress),
                      SetProgress ''Fetching allocation data...'', Call (EntityStateByID eid),
                      SetProgress ''Fetching confirmed allocation from API...'',
                      Call (Fetch (apiUrl env eid))],
                     Inr (reconcile eid entityState apiAlloc apiErr)))))"

definition checkAllocations :: "env \<Rightarrow> string \<Rightarrow> result effect list" where
  "checkAllocations env address =
     (if address = [] then [SetError PromptMessage]
      else
        [SetLoading True, SetError [], SetResult None, SetProgress []] @
        (case resolveIdentity env address of
           (es, None) \<Rightarrow> es
         | (es, Some resolvedAddress) \<Rightarrow>
             (case lookupAllocation env resolvedAddress of
                (es', Inl msg) \<Rightarrow> es @ es' @ [SetError (ChainReadError msg)]
              | (es', Inr r) \<Rightarrow> es @ es' @ [SetResult (Some r)])) @
        [SetLoading False, SetProgress []])"

section \<open>The allocation check by a scan of the event log\<close>

text \<open>
  The revision of \<open>checkAllocations\<close> in \<^verbatim>\<open>src/App.jsx\<close> that reads the
  \<open>AllocationSet\<close> events of the contract in chunks of blocks. A log entry
  carries \<open>args.entityID\<close>, \<open>args.acceptedAmountUSDT\<close> (a \<open>uint256\<close>), the
  transaction hash and the block number (a BigInt, as are \<open>START_BLOCK\<close>,
  \<open>CHUNK_SIZE\<close> and the loop's \<open>fromBlock\<close> and \<open>toBlock\<close>: integers without a
  bound). The fields of the object passed to \<open>setResult\<close> carry the prefix
  \<open>scan\<close> where the name is taken. \<open>chunkEnd\<close> is the expression for \<open>toBlock\<close>.
\<close>

record log_entry =
  logEntityID :: string
  acceptedAmountUSDT :: "256 word"
  transactionHash :: string
  blockNumber :: int

record scan_env =
  getBlockNumber :: "string + int"
  locateEntity :: "string \<Rightarrow> string + string"
  getLogs :: "int \<Rightarrow> int \<Rightarrow> string + log_entry list"

record scan_result =
  scanFound :: bool
  scanMessage :: "string option"
  scanAmount :: "rat option"
  scanTransactionHash :: "string option"
  scanBlockNumber :: "string option"
  totalAllocations :: "nat option"
  scanEntityID :: string

definition START_BLOCK :: int where
  "START_BLOCK = 21280000"

definition CHUNK_SIZE :: int where
  "CHUNK_SIZE = 50000"

definition chunkEnd :: "int \<Rightarrow> int \<Rightarrow> int" where
  "chunkEnd fromBlock currentBlock =
     (if fromBlock + CHUNK_SIZE - 1 > currentBlock then currentBlock
      else fromBlock + CHUNK_SIZE - 1)"

text \<open>
  The \<open>for\<close> loop over the chunks: its effects, and the message of the error a
  query throws (\<open>Inl\<close>) or \<open>allLogs\<close> when the loop ends.
\<close>

function scanLoop ::
  "scan_env \<Rightarrow> int \<Rightarrow> int \<Rightarrow> log_entry list \<Rightarrow>
     scan_result effect list \<times> (string + log_entry list)" where
  "scanLoop env fromBlock currentBlock allLogs =
     (if fromBlock \<le> currentBlock then
        (case getLogs env fromBlock (chunkEnd fromBlock currentBlock) of
           Inl msg \<Rightarrow>
             ([SetProgress (''Scanning blocks '' @ showInt fromBlock @ '' to '' @
                 showInt (chunkEnd fromBlock currentBlock) @ ''...''),
               Call (GetLogs fromBlock (chunkEnd fromBlock currentBlock))], Inl msg)
         | Inr logs \<Rightarrow>
             (case scanLoop env (fromBlock + CHUNK_SIZE) currentBlock (allLogs @ logs) of
                (es, r) \<Rightarrow>
                  (SetProgress (''Scanning blocks '' @ showInt fromBlock @ '' to '' @
                     showInt (chunkEnd fromBlock currentBlock) @ ''...'') #
                   Call (GetLogs fromBlock (chunkEnd fromBlock currentBlock)) # es, r)))
      else ([], Inr allLogs))"
  by pat_completeness auto
termination
  by (relation "measure (\<lambda>(env, fromBlock, currentBlock, allLogs). nat (currentBlock - fromBlock + 1))")
     (auto simp: CHUNK_SIZE_def)

declare scanLoop.simps [simp del]

text \<open>The filter of \<open>allLogs\<close> and the object given to \<open>setResult\<close>.\<close>

definition userAllocations :: "string \<Rightarrow> log_entry list \<Rightarrow> log_entry list" where
  "userAllocations eid allLogs =
     filter (\<lambda>log. toLowerCase (logEntityID log) = toLowerCase eid) allLogs"

definition reconstruct :: "string \<Rightarrow> log_entry list \<Rightarrow> scan_result" where
  "reconstruct eid allLogs =
     (let ua = userAllocations eid allLogs
      in if length ua = 0 then
           \<lparr>scanFound = False, scanMessage = Some ''No allocation detected'', scanAmount = None,
            scanTransactionHash = None, scanBlockNumber = None, totalAllocations = None,
            scanEntityID = eid\<rparr>
         else
           (let latestAlloc = ua ! (length ua - 1);
                amountUSDT = (of_nat (unat (acceptedAmountUSDT latestAlloc)) :: rat) / 1000000
            in \<lparr>scanFound = True, scanMessage = None, scanAmount = Some amountUSDT,
                scanTransactionHash = Some (transactionHash latestAlloc),
                scanBlockNumber = Some (showInt (blockNumber latestAlloc)),
                totalAllocations = Some (length ua), scanEntityID = eid\<rparr>))"

definition checkAllocationsByEvents :: "scan_env \<Rightarrow> string \<Rightarrow> scan_result effect list" where
  "checkAllocationsByEvents env address =
     (if address = [] then [SetError ''Please enter an address'']
      else if \<not> matchesAddress address then [SetError InvalidAddressFormat]
      else
        [SetLoading True, SetError [], SetResult None, SetProgress []] @
        (case getBlockNumber env of
           Inl msg \<Rightarrow>
             [SetProgress ''Getting current block...'', Call GetBlockNumber,
              SetError (ChainReadError msg)]
         | Inr currentBlock \<Rightarrow>
             (case locateEntity env address of
                Inl msg \<Rightarrow>
                  [SetProgress ''Getting current block...'', Call GetBlockNumber,
                   SetProgress ''Fetching entityID...'', Call (EntityByAddress address),
                   SetError (ChainReadError msg)]
              | Inr eid \<Rightarrow>
                  [SetProgress ''Getting current block...'', Call GetBlockNumber,
                   SetProgress ''Fetching entityID...'', Call (EntityByAddress address),
                   SetProgress (''Scanning blocks from '' @ showInt START_BLOCK @ '' to '' @
                     showInt currentBlock @ ''...'')] @
                  (case scanLoop env START_BLOCK currentBlock [] of
                     (es, Inl msg) \<Rightarrow> es @ [SetError (ChainReadError msg)]
                   | (es, Inr allLogs) \<Rightarrow> es @ [SetResult (Some (reconstruct eid allLogs))]))) @
        [SetLoading False, SetProgress []])"

text \<open>
  The block ranges of the log queries among the effects of a scan, in the order
  they were issued, and what it means for such ranges to be consecutive from a
  block: each starts where the one before it ended, is not empty and is at most
  \<open>CHUNK_SIZE\<close> blocks wide.
\<close>

definition queries :: "'r effect list \<Rightarrow> (int \<times> int) list" where
  "queries es = concat (map (\<lambda>e. case e of Call (GetLogs f t) \<Rightarrow> [(f, t)] | _ \<Rightarrow> []) es)"

fun consecutiveFrom :: "int \<Rightarrow> (int \<times> int) list \<Rightarrow> bool" where
  "consecutiveFrom s [] = True"
| "consecutiveFrom s ((f, t) # cs) =
     (f = s \<and> f \<le> t \<and> t - f + 1 \<le> CHUNK_SIZE \<and> consecutiveFrom (t + 1) cs)"



section \<open>The relay function\<close>

text \<open>
  The handler of \<^verbatim>\<open>netlify/functions/allocation.js\<close>. The request is given by
  the query parameters of its URL, in order; \<open>searchParams.get\<close> returns the
  value of the first parameter of that name, or \<open>null\<close>. The body of a response
  is \<open>JSON.stringify\<close> of an error object or of the data read from upstream.
\<close>

datatype 'j relay_body = ErrorBody string | DataBody 'j

record 'j relay_response =
  responseStatus :: nat
  responseHeaders :: "(string \<times> string) list"
  responseBody :: "'j relay_body"

definition searchParamsGet :: "(string \<times> string) list \<Rightarrow> string \<Rightarrow> string option" where
  "searchParamsGet params name = map_of params name"

definition handler ::
  "(string \<Rightarrow> 'j fetch_outcome) \<Rightarrow> (string \<times> string) list \<Rightarrow> 'j relay_response" where
  "handler upstream params =
     (case searchParamsGet params ''entityId'' of
        None \<Rightarrow>
          \<lparr>responseStatus = 400, responseHeaders = [(''Content-Type'', ''application/json'')],
           responseBody = ErrorBody ''entityId parameter is required''\<rparr>
      | Some entityId \<Rightarrow>
          (if entityId = [] then
             \<lparr>responseStatus = 400, responseHeaders = [(''Content-Type'', ''application/json'')],
              responseBody = ErrorBody ''entityId parameter is required''\<rparr>
           else
             (case upstream (''https://token-api.megaeth.com/api/allocation?entityId='' @ entityId) of
                FetchRejects msg \<Rightarrow>
                  \<lparr>responseStatus = 500,
                   responseHeaders = [(''Content-Type'', ''application/json'')],
                   responseBody = ErrorBody ''Failed to fetch allocation data''\<rparr>
              | FetchResolves response \<Rightarrow>
                  (case json response of
                     Inl msg \<Rightarrow>
                       \<lparr>responseStatus = 500,
                        responseHeaders = [(''Content-Type'', ''application/json'')],
                        responseBody = ErrorBody ''Failed to fetch allocation data''\<rparr>
                   | Inr data \<Rightarrow>
                       \<lparr>responseStatus = 200,
                        responseHeaders = [(''Content-Type'', ''application/json''),
                          (''Access-Control-Allow-Origin'', ''*'')],
                        responseBody = DataBody data\<rparr>))))"

section \<open>Sample inputs\<close>

text \<open>
  Concrete inputs at which the theorems below are instantiated: the all-zero
  \<open>bytes16\<close> and the state the contract holds for it, and remote services
  where no name is bound, every address has the zero entity and the request to
  the API fails; an address, the state of an entity with an accepted amount,
  and remote services where the relay answers 500.
\<close>

definition zeroEntityID :: string where
  "zeroEntityID = ''0x00000000000000000000000000000000''"

definition zeroState :: entity_state where
  "zeroState = \<lparr>addr = ''0x0000000000000000000000000000000000000000'',
     entityID = ''0x00000000000000000000000000000000'', acceptedAmount = 0,
     bidTimestamp = 0, refunded = False, cancelled = False, activeBid = (0, 0)\<rparr>"

definition sampleEnv :: env where
  "sampleEnv = \<lparr>getEnsAddress = (\<lambda>name. EnsReturns None),
     entityByAddress = (\<lambda>a. Inr zeroEntityID),
     entityStateByID = (\<lambda>i. Inr zeroState),
     fetch = (\<lambda>url. FetchRejects ''Failed to fetch''),
     DEV = False\<rparr>"

definition sampleAddress :: string where
  "sampleAddress = ''0xaaaaaaaaaaaaaaaaaaaaaaaaaaaaaaaaaaaaaaaa''"



text \<open>
  The component state before the first invocation, and three responses of the
  upstream API: a 404, a success whose body is not JSON, and an allocation.
\<close>

definition idleUi :: "result ui" where
  "idleUi = \<lparr>loading = False, result = None, error = [], progress = []\<rparr>"

definition upstreamNotFound :: "(api_data option) http_response" where
  "upstreamNotFound = \<lparr>status = 404, json = Inr None, text_body = Inr ''null''\<rparr>"

definition upstreamHtml :: "(api_data option) http_response" where
  "upstreamHtml = \<lparr>status = 200, json = Inl ''Unexpected token < in JSON at position 0'',
     text_body = Inr ''<html></html>''\<rparr>"

definition upstreamAllocation :: "(api_data option) http_response" where
  "upstreamAllocation = \<lparr>status = 200,
     json = Inr (Some \<lparr>usdt_allocation = Some 500, token_allocation = None,
       clearing_price = None\<rparr>),
     text_body = Inr ''{\"usdt_allocation\":500}''\<rparr>"

text \<open>
  An event log with two events of one entity (its identifier in two casings)
  around an event of another, a chain of 120,000 blocks from \<open>START_BLOCK\<close>
  that serves it, and the same chain where the second chunk query fails.
\<close>

definition sampleEntityID :: string where
  "sampleEntityID = ''0x0123456789abcdef0123456789abcdef''"

definition chainLogs :: "log_entry list" where
  "chainLogs =
     [\<lparr>logEntityID = ''0x0123456789ABCDEF0123456789ABCDEF'', acceptedAmountUSDT = 1000000,
       transactionHash = ''0x01'', blockNumber = 21280010\<rparr>,
      \<lparr>logEntityID = ''0xffffffffffffffffffffffffffffffff'', acceptedAmountUSDT = 7000000,
       transactionHash = ''0x02'', blockNumber = 21330005\<rparr>,
      \<lparr>logEntityID = ''0x0123456789abcdef0123456789abcdef'', acceptedAmountUSDT = 2500000,
       transactionHash = ''0x03'', blockNumber = 21390000\<rparr>]"

definition sampleScanEnv :: scan_env where
  "sampleScanEnv = \<lparr>getBlockNumber = Inr 21399999,
     locateEntity = (\<lambda>a. Inr sampleEntityID),
     getLogs = (\<lambda>f t. Inr (filter (\<lambda>l. f \<le> blockNumber l \<and> blockNumber l \<le> t) chainLogs))\<rparr>"

definition failingScanEnv :: scan_env where
  "failingScanEnv = \<lparr>getBlockNumber = Inr 21399999,
     locateEntity = (\<lambda>a. Inr sampleEntityID),
     getLogs = (\<lambda>f t. if f = 21330000 then Inl ''query timeout''
        else Inr (filter (\<lambda>l. f \<le> blockNumber l \<and> blockNumber l \<le> t) chainLogs))\<rparr>"

definition idleScanUi :: "scan_result ui" where
  "idleScanUi = \<lparr>loading = False, result = None, error = [], progress = []\<rparr>"

section \<open>Properties of the allocation check\<close>

text \<open>
  C10. For the empty input, \<open>checkAllocations\<close> only sets the prompt message:
  it makes no remote call, and every field of the component state other than
  the error message is what the previous invocation left.
\<close>

theorem C10_empty_input_only_sets_error:
  "checkAllocations env [] = [SetError PromptMessage] \<and>
   calls (checkAllocations env []) = [] \<and>
   run (checkAllocations env []) s = s\<lparr>error := ''Please enter an address or ENS name''\<rparr>"
  by (simp add: checkAllocations_def calls_def run_def PromptMessage_def)




subsection \<open>Identity resolution\<close>

lemma matchesAddress_shape:
  assumes "matchesAddress a"
  obtains ds where "a = CHR ''0'' # CHR ''x'' # ds" "length ds = 40" "list_all isHexDigit ds"
  using assms by (auto simp: matchesAddress_def split: list.splits)

lemma matchesAddress_startsWith: "matchesAddress a \<Longrightarrow> startsWith a ''0x''"
  by (erule matchesAddress_shape) (simp add: startsWith_def)

lemma matchesAddress_not_endsWith:
  assumes "matchesAddress a"
  shows "\<not> endsWith a ''.eth''"
proof
  assume e: "endsWith a ''.eth''"
  from assms obtain ds where a: "a = CHR ''0'' # CHR ''x'' # ds" and l: "length ds = 40"
    and h: "list_all isHexDigit ds" by (rule matchesAddress_shape)
  from l have ne: "ds \<noteq> []" by auto
  from e obtain zs where z: "a = zs @ ''.eth''" by (auto simp: endsWith_def suffix_def)
  have "last a = CHR ''h''" unfolding z by simp
  moreover have "last a = last ds" using a ne by simp
  moreover have "last ds \<in> set ds" using ne by simp
  ultimately have "isHexDigit CHR ''h''" using h by (auto simp: list_all_iff)
  then show False by (simp add: isHexDigit_def)
qed

lemma matchesAddress_nonempty: "matchesAddress a \<Longrightarrow> a \<noteq> []"
  by (erule matchesAddress_shape) simp

lemma resolveIdentity_literal: "matchesAddress a \<Longrightarrow> resolveIdentity env a = ([], Some a)"
  by (simp add: resolveIdentity_def matchesAddress_startsWith matchesAddress_not_endsWith)

lemma resolveIdentity_name_calls:
  "\<not> startsWith a ''0x'' \<Longrightarrow> calls (fst (resolveIdentity env a)) = [GetEnsAddress a]"
  by (auto simp: resolveIdentity_def calls_def split: ens_outcome.splits)

text \<open>
  C2 (amended). An input that is \<open>0x\<close> followed by exactly 40 hexadecimal digits,
  in any casing of the digits, is accepted with no remote call and unchanged:
  no case-normalisation is applied, so the same address in two casings resolves
  to two strings that are equal up to letter case. An input that does not start
  with \<open>0x\<close>, a literal of 40 hexadecimal digits among them, is sent to name
  resolution.
\<close>

theorem C2_literal_resolution:
  "(matchesAddress a \<longrightarrow> resolveIdentity env a = ([], Some a)) \<and>
   (matchesAddress a \<and> matchesAddress b \<and> toLowerCase a = toLowerCase b \<longrightarrow>
      (\<exists>ra rb. snd (resolveIdentity env a) = Some ra \<and> snd (resolveIdentity env b) = Some rb \<and>
         toLowerCase ra = toLowerCase rb)) \<and>
   (\<not> startsWith a ''0x'' \<longrightarrow> calls (fst (resolveIdentity env a)) = [GetEnsAddress a])"
  by (simp add: resolveIdentity_literal resolveIdentity_name_calls)

theorem C2_literal_resolution_witness:
  "matchesAddress ''0xAAAAAAAAAAAAAAAAAAAAAAAAAAAAAAAAAAAAAAAA'' \<and>
   matchesAddress ''0xaaaaaaaaaaaaaaaaaaaaaaaaaaaaaaaaaaaaaaaa'' \<and>
   toLowerCase ''0xAAAAAAAAAAAAAAAAAAAAAAAAAAAAAAAAAAAAAAAA'' =
     toLowerCase ''0xaaaaaaaaaaaaaaaaaaaaaaaaaaaaaaaaaaaaaaaa'' \<and>
   resolveIdentity sampleEnv ''0xAAAAAAAAAAAAAAAAAAAAAAAAAAAAAAAAAAAAAAAA'' =
     ([], Some ''0xAAAAAAAAAAAAAAAAAAAAAAAAAAAAAAAAAAAAAAAA'') \<and>
   \<not> startsWith ''aaaaaaaaaaaaaaaaaaaaaaaaaaaaaaaaaaaaaaaa'' ''0x'' \<and>
   calls (fst (resolveIdentity sampleEnv ''aaaaaaaaaaaaaaaaaaaaaaaaaaaaaaaaaaaaaaaa'')) =
     [GetEnsAddress ''aaaaaaaaaaaaaaaaaaaaaaaaaaaaaaaaaaaaaaaa'']"
  using C2_literal_resolution [of "''0xAAAAAAAAAAAAAAAAAAAAAAAAAAAAAAAAAAAAAAAA''" sampleEnv
      "''0xaaaaaaaaaaaaaaaaaaaaaaaaaaaaaaaaaaaaaaaa''"]
    C2_literal_resolution [of "''aaaaaaaaaaaaaaaaaaaaaaaaaaaaaaaaaaaaaaaa''" sampleEnv "[]"]
  by (simp add: matchesAddress_def isHexDigit_def toLowerCase_def lowerChar_def startsWith_def)

text \<open>
  The claim as first stated fails: a literal of 40 hexadecimal digits without
  the prefix is sent to name resolution (and rejected when no name is bound),
  and two casings of one address resolve to two different strings.
\<close>

theorem C2_literal_without_prefix_counterexample:
  "calls (fst (resolveIdentity sampleEnv ''aaaaaaaaaaaaaaaaaaaaaaaaaaaaaaaaaaaaaaaa'')) =
     [GetEnsAddress ''aaaaaaaaaaaaaaaaaaaaaaaaaaaaaaaaaaaaaaaa''] \<and>
   snd (resolveIdentity sampleEnv ''aaaaaaaaaaaaaaaaaaaaaaaaaaaaaaaaaaaaaaaa'') = None \<and>
   snd (resolveIdentity sampleEnv ''0xAAAAAAAAAAAAAAAAAAAAAAAAAAAAAAAAAAAAAAAA'') \<noteq>
   snd (resolveIdentity sampleEnv ''0xaaaaaaaaaaaaaaaaaaaaaaaaaaaaaaaaaaaaaaaa'')"
  by (simp add: resolveIdentity_def sampleEnv_def calls_def startsWith_def endsWith_def
      matchesAddress_def isHexDigit_def suffix_to_prefix)

subsection \<open>The run of an invocation\<close>

lemma run_append: "run (xs @ ys) s = run ys (run xs s)"
  by (simp add: run_def)

lemma run_Cons: "run (e # es) s = run es (applyEffect s e)"
  by (simp add: run_def)

lemma run_Nil: "run [] s = s"
  by (simp add: run_def)

lemma resolveIdentity_success_effects:
  "snd (resolveIdentity env a) = Some ra \<Longrightarrow>
     fst (resolveIdentity env a) = [] \<or>
     fst (resolveIdentity env a) = [SetProgress ''Resolving ENS name...'', Call (GetEnsAddress a)]"
  by (auto simp: resolveIdentity_def split: if_splits ens_outcome.splits)

lemma lookupAllocation_result:
  "entityByAddress env ra = Inr eid \<Longrightarrow> entityStateByID env eid = Inr st \<Longrightarrow>
     lookupAllocation env ra =
       ([SetProgress ''Fetching entityID...'', Call (EntityByAddress ra),
         SetProgress ''Fetching allocation data...'', Call (EntityStateByID eid),
         SetProgress ''Fetching confirmed allocation from API...'', Call (Fetch (apiUrl env eid))],
        Inr (reconcile eid st (fst (fetchApiAllocation env eid)) (snd (fetchApiAllocation env eid))))"
  by (simp add: lookupAllocation_def split: prod.splits)

lemma checkAllocations_reads:
  assumes "a \<noteq> []" "snd (resolveIdentity env a) = Some ra"
    "entityByAddress env ra = Inr eid" "entityStateByID env eid = Inr st"
  shows "run (checkAllocations env a) s =
           s\<lparr>loading := False,
             result := Some (reconcile eid st (fst (fetchApiAllocation env eid))
                               (snd (fetchApiAllocation env eid))),
             error := [], progress := []\<rparr>"
    and "calls (checkAllocations env a) =
           calls (fst (resolveIdentity env a)) @
           [EntityByAddress ra, EntityStateByID eid, Fetch (apiUrl env eid)]"
proof -
  obtain es where r: "resolveIdentity env a = (es, Some ra)"
    using assms(2) by (cases "resolveIdentity env a") auto
  have es: "es = [] \<or> es = [SetProgress ''Resolving ENS name...'', Call (GetEnsAddress a)]"
    using resolveIdentity_success_effects [OF assms(2)] r by simp
  note l = lookupAllocation_result [OF assms(3,4)]
  show "run (checkAllocations env a) s =
           s\<lparr>loading := False,
             result := Some (reconcile eid st (fst (fetchApiAllocation env eid))
                               (snd (fetchApiAllocation env eid))),
             error := [], progress := []\<rparr>"
    using es assms(1) by (auto simp: checkAllocations_def r l run_def)
  show "calls (checkAllocations env a) =
           calls (fst (resolveIdentity env a)) @
           [EntityByAddress ra, EntityStateByID eid, Fetch (apiUrl env eid)]"
    using assms(1) by (simp add: checkAllocations_def r l calls_def)
qed


text \<open>
  C3. An input that takes the literal path (it starts with \<open>0x\<close> and does not end
  in \<open>.eth\<close>) and is not a valid literal fails with \<open>InvalidAddressFormat\<close>; an
  input that takes the name path and whose name resolution completes with no
  bound address fails with \<open>NameNotFound\<close>. No default address is ever returned:
  a resolved address is the valid literal itself or the address the naming
  service returned for the input.
\<close>

theorem C3_resolution_failures:
  "(startsWith a ''0x'' \<and> \<not> endsWith a ''.eth'' \<and> \<not> matchesAddress a \<longrightarrow>
      resolveIdentity env a =
        ([SetError InvalidAddressFormat, SetLoading False, SetProgress []], None)) \<and>
   ((\<not> startsWith a ''0x'' \<or> endsWith a ''.eth'') \<and>
    (getEnsAddress env a = EnsReturns None \<or> getEnsAddress env a = EnsReturns (Some [])) \<longrightarrow>
      resolveIdentity env a =
        ([SetProgress ''Resolving ENS name...'', Call (GetEnsAddress a),
          SetError NameNotFound, SetLoading False, SetProgress []], None)) \<and>
   (\<forall>r. snd (resolveIdentity env a) = Some r \<longrightarrow>
      (matchesAddress a \<and> r = a) \<or> (getEnsAddress env a = EnsReturns (Some r) \<and> r \<noteq> []))"
  by (auto simp: resolveIdentity_def split: ens_outcome.splits if_splits)

theorem C3_resolution_failures_witness:
  "startsWith ''0x123'' ''0x'' \<and> \<not> endsWith ''0x123'' ''.eth'' \<and> \<not> matchesAddress ''0x123'' \<and>
   resolveIdentity sampleEnv ''0x123'' =
     ([SetError InvalidAddressFormat, SetLoading False, SetProgress []], None) \<and>
   endsWith ''nobody.eth'' ''.eth'' \<and> getEnsAddress sampleEnv ''nobody.eth'' = EnsReturns None \<and>
   resolveIdentity sampleEnv ''nobody.eth'' =
     ([SetProgress ''Resolving ENS name...'', Call (GetEnsAddress ''nobody.eth''),
       SetError NameNotFound, SetLoading False, SetProgress []], None) \<and>
   snd (resolveIdentity sampleEnv sampleAddress) = Some sampleAddress \<and>
   matchesAddress sampleAddress"
proof -
  have h1: "startsWith ''0x123'' ''0x'' \<and> \<not> endsWith ''0x123'' ''.eth'' \<and> \<not> matchesAddress ''0x123''"
    by (simp add: startsWith_def endsWith_def suffix_to_prefix matchesAddress_def)
  have h2: "endsWith ''nobody.eth'' ''.eth'' \<and> getEnsAddress sampleEnv ''nobody.eth'' = EnsReturns None"
    by (simp add: endsWith_def suffix_to_prefix sampleEnv_def)
  have h3: "snd (resolveIdentity sampleEnv sampleAddress) = Some sampleAddress"
    by (simp add: resolveIdentity_def sampleAddress_def startsWith_def endsWith_def
        suffix_to_prefix matchesAddress_def isHexDigit_def)
  have h4: "getEnsAddress sampleEnv sampleAddress \<noteq> EnsReturns (Some sampleAddress)"
    by (simp add: sampleEnv_def)
  from C3_resolution_failures [of "''0x123''" sampleEnv]
    C3_resolution_failures [of "''nobody.eth''" sampleEnv]
    C3_resolution_failures [of sampleAddress sampleEnv] h1 h2 h3 h4
  show ?thesis by simp
qed

text \<open>
  C4. When the locator returns the all-zero \<open>bytes16\<close>, resolution continues: the
  state of the zero entity is read, and when that state has no accepted amount
  and no off-chain allocation exists, the invocation ends with no error and a
  result that is not found and carries the zero entity identifier.
\<close>

theorem C4_zero_entity_is_absent:
  assumes "a \<noteq> []" and "snd (resolveIdentity env a) = Some ra"
    and "entityByAddress env ra = Inr zeroEntityID"
    and "entityStateByID env zeroEntityID = Inr st" and "acceptedAmount st = 0"
    and "\<not> hasApiAllocation (fst (fetchApiAllocation env zeroEntityID))"
  shows "\<exists>r. run (checkAllocations env a) s =
             s\<lparr>loading := False, result := Some r, error := [], progress := []\<rparr> \<and>
           \<not> found r \<and> resultEntityID r = zeroEntityID \<and>
           EntityStateByID zeroEntityID \<in> set (calls (checkAllocations env a))"
proof -
  let ?r = "reconcile zeroEntityID st (fst (fetchApiAllocation env zeroEntityID))
              (snd (fetchApiAllocation env zeroEntityID))"
  show ?thesis
  proof (intro exI conjI)
    show "run (checkAllocations env a) s =
            s\<lparr>loading := False, result := Some ?r, error := [], progress := []\<rparr>"
      by (rule checkAllocations_reads(1) [OF assms(1-4)])
    show "\<not> found ?r" and "resultEntityID ?r = zeroEntityID"
      using assms(5,6) by (simp_all add: reconcile_def Let_def)
    show "EntityStateByID zeroEntityID \<in> set (calls (checkAllocations env a))"
      by (simp add: checkAllocations_reads(2) [OF assms(1-4)])
  qed
qed

theorem C4_zero_entity_is_absent_witness:
  "sampleAddress \<noteq> [] \<and>
   snd (resolveIdentity sampleEnv sampleAddress) = Some sampleAddress \<and>
   entityByAddress sampleEnv sampleAddress = Inr zeroEntityID \<and>
   entityStateByID sampleEnv zeroEntityID = Inr zeroState \<and>
   acceptedAmount zeroState = 0 \<and>
   \<not> hasApiAllocation (fst (fetchApiAllocation sampleEnv zeroEntityID)) \<and>
   (\<exists>r. run (checkAllocations sampleEnv sampleAddress) idleUi =
          idleUi\<lparr>loading := False, result := Some r, error := [], progress := []\<rparr> \<and>
        \<not> found r \<and> resultEntityID r = zeroEntityID \<and>
        EntityStateByID zeroEntityID \<in> set (calls (checkAllocations sampleEnv sampleAddress)))"
proof -
  have h1: "sampleAddress \<noteq> []" by (simp add: sampleAddress_def)
  have h2: "snd (resolveIdentity sampleEnv sampleAddress) = Some sampleAddress"
    by (simp add: resolveIdentity_def sampleAddress_def startsWith_def endsWith_def
        suffix_to_prefix matchesAddress_def isHexDigit_def)
  have h3: "entityByAddress sampleEnv sampleAddress = Inr zeroEntityID"
    by (simp add: sampleEnv_def)
  have h4: "entityStateByID sampleEnv zeroEntityID = Inr zeroState"
    by (simp add: sampleEnv_def)
  have h5: "acceptedAmount zeroState = 0" by (simp add: zeroState_def)
  have h6: "\<not> hasApiAllocation (fst (fetchApiAllocation sampleEnv zeroEntityID))"
    by (simp add: fetchApiAllocation_def sampleEnv_def hasApiAllocation_def)
  from C4_zero_entity_is_absent [OF h1 h2 h3 h4 h5 h6, of idleUi] h1 h2 h3 h4 h5 h6
  show ?thesis by simp
qed



section \<open>Properties of the event scan\<close>

lemma queries_simps [simp]:
  "queries [] = []"
  "queries (SetProgress p # es) = queries es"
  "queries (Call (GetLogs f t) # es) = (f, t) # queries es"
  by (simp_all add: queries_def)

lemma scanLoop_done: "c < f \<Longrightarrow> scanLoop env f c acc = ([], Inr acc)"
  by (simp add: scanLoop.simps)

lemma scanLoop_fail:
  "f \<le> c \<Longrightarrow> getLogs env f (chunkEnd f c) = Inl m \<Longrightarrow>
     scanLoop env f c acc =
       ([SetProgress (''Scanning blocks '' @ showInt f @ '' to '' @ showInt (chunkEnd f c) @ ''...''),
         Call (GetLogs f (chunkEnd f c))], Inl m)"
  by (subst scanLoop.simps) simp

lemma scanLoop_step:
  "f \<le> c \<Longrightarrow> getLogs env f (chunkEnd f c) = Inr logs \<Longrightarrow>
     scanLoop env f c acc =
       (SetProgress (''Scanning blocks '' @ showInt f @ '' to '' @ showInt (chunkEnd f c) @ ''...'') #
        Call (GetLogs f (chunkEnd f c)) # fst (scanLoop env (f + CHUNK_SIZE) c (acc @ logs)),
        snd (scanLoop env (f + CHUNK_SIZE) c (acc @ logs)))"
  by (subst scanLoop.simps) (simp split: prod.splits)

lemma chunkEnd_bounds: "f \<le> c \<Longrightarrow> f \<le> chunkEnd f c \<and> chunkEnd f c \<le> c \<and> chunkEnd f c - f + 1 \<le> CHUNK_SIZE"
  by (simp add: chunkEnd_def CHUNK_SIZE_def)

lemma chunkEnd_next: "f \<le> c \<Longrightarrow> f + CHUNK_SIZE \<le> c \<Longrightarrow> chunkEnd f c + 1 = f + CHUNK_SIZE"
  by (simp add: chunkEnd_def CHUNK_SIZE_def)

lemma chunkEnd_last: "f \<le> c \<Longrightarrow> c < f + CHUNK_SIZE \<Longrightarrow> chunkEnd f c = c"
  by (simp add: chunkEnd_def CHUNK_SIZE_def)

lemma scanLoop_consecutive: "consecutiveFrom f (queries (fst (scanLoop env f c acc)))"
proof (induction env f c acc rule: scanLoop.induct)
  case (1 env f c acc)
  show ?case
  proof (cases "f \<le> c")
    case False
    then show ?thesis by (simp add: scanLoop_done)
  next
    case True
    show ?thesis
    proof (cases "getLogs env f (chunkEnd f c)")
      case (Inl m)
      with True show ?thesis by (simp add: scanLoop_fail chunkEnd_bounds)
    next
      case (Inr logs)
      show ?thesis
      proof (cases "f + CHUNK_SIZE \<le> c")
        case True
        with \<open>f \<le> c\<close> Inr "1.IH" [OF \<open>f \<le> c\<close> Inr] show ?thesis
          by (simp add: scanLoop_step chunkEnd_bounds chunkEnd_next)
      next
        case False
        with \<open>f \<le> c\<close> Inr show ?thesis
          by (simp add: scanLoop_step scanLoop_done chunkEnd_bounds)
      qed
    qed
  qed
qed

lemma scanLoop_covers:
  "f \<le> c \<Longrightarrow> snd (scanLoop env f c acc) = Inr out \<Longrightarrow>
     queries (fst (scanLoop env f c acc)) \<noteq> [] \<and>
     snd (last (queries (fst (scanLoop env f c acc)))) = c"
proof (induction env f c acc rule: scanLoop.induct)
  case (1 env f c acc)
  note fc = \<open>f \<le> c\<close>
  show ?case
  proof (cases "getLogs env f (chunkEnd f c)")
    case (Inl m)
    with fc "1.prems" show ?thesis by (simp add: scanLoop_fail)
  next
    case (Inr logs)
    show ?thesis
    proof (cases "f + CHUNK_SIZE \<le> c")
      case True
      from "1.prems"(2) fc Inr
      have "snd (scanLoop env (f + CHUNK_SIZE) c (acc @ logs)) = Inr out"
        by (simp add: scanLoop_step)
      from "1.IH" [OF fc Inr True this] fc Inr show ?thesis
        by (simp add: scanLoop_step)
    next
      case False
      with fc Inr show ?thesis
        by (simp add: scanLoop_step scanLoop_done chunkEnd_last)
    qed
  qed
qed

lemma consecutiveFrom_width:
  "consecutiveFrom s cs \<Longrightarrow> (f, t) \<in> set cs \<Longrightarrow> f \<le> t \<and> t - f + 1 \<le> CHUNK_SIZE"
  by (induction s cs rule: consecutiveFrom.induct) auto

lemma scanLoop_three_chunks:
  assumes "\<forall>f t. \<not> isl (getLogs env f t)"
  shows "queries (fst (scanLoop env S (S + 119999) acc)) =
           [(S, S + 49999), (S + 50000, S + 99999), (S + 100000, S + 119999)]"
proof -
  have ok: "\<And>f t. \<exists>logs. getLogs env f t = Inr logs"
    using assms by (metis isl_def sum.exhaust_sel sum.collapse(2))
  obtain l1 where l1: "getLogs env S (chunkEnd S (S + 119999)) = Inr l1" using ok by blast
  obtain l2 where l2: "getLogs env (S + CHUNK_SIZE) (chunkEnd (S + CHUNK_SIZE) (S + 119999)) = Inr l2"
    using ok by blast
  obtain l3 where l3: "getLogs env (S + CHUNK_SIZE + CHUNK_SIZE)
      (chunkEnd (S + CHUNK_SIZE + CHUNK_SIZE) (S + 119999)) = Inr l3"
    using ok by blast
  have s1: "S \<le> S + 119999" by simp
  have s2: "S + CHUNK_SIZE \<le> S + 119999" by (simp add: CHUNK_SIZE_def)
  have s3: "S + CHUNK_SIZE + CHUNK_SIZE \<le> S + 119999" by (simp add: CHUNK_SIZE_def)
  have s4: "S + 119999 < S + CHUNK_SIZE + CHUNK_SIZE + CHUNK_SIZE" by (simp add: CHUNK_SIZE_def)
  let ?c = "S + 119999"
  have q1: "queries (fst (scanLoop env S ?c acc)) =
      (S, chunkEnd S ?c) # queries (fst (scanLoop env (S + CHUNK_SIZE) ?c (acc @ l1)))"
    by (subst scanLoop_step [OF s1 l1]) simp
  have q2: "queries (fst (scanLoop env (S + CHUNK_SIZE) ?c (acc @ l1))) =
      (S + CHUNK_SIZE, chunkEnd (S + CHUNK_SIZE) ?c) #
      queries (fst (scanLoop env (S + CHUNK_SIZE + CHUNK_SIZE) ?c ((acc @ l1) @ l2)))"
    by (subst scanLoop_step [OF s2 l2]) simp
  have q3: "queries (fst (scanLoop env (S + CHUNK_SIZE + CHUNK_SIZE) ?c ((acc @ l1) @ l2))) =
      (S + CHUNK_SIZE + CHUNK_SIZE, chunkEnd (S + CHUNK_SIZE + CHUNK_SIZE) ?c) #
      queries (fst (scanLoop env (S + CHUNK_SIZE + CHUNK_SIZE + CHUNK_SIZE) ?c
        (((acc @ l1) @ l2) @ l3)))"
    by (subst scanLoop_step [OF s3 l3]) simp
  have q4: "queries (fst (scanLoop env (S + CHUNK_SIZE + CHUNK_SIZE + CHUNK_SIZE) ?c
        (((acc @ l1) @ l2) @ l3))) = []"
    by (subst scanLoop_done [OF s4]) simp
  show ?thesis unfolding q1 q2 q3 q4 by (simp add: chunkEnd_def CHUNK_SIZE_def)
qed





lemma scanLoop_effects:
  "e \<in> set (fst (scanLoop env f c acc)) \<Longrightarrow> (\<exists>p. e = SetProgress p) \<or> (\<exists>q. e = Call q)"
proof (induction env f c acc rule: scanLoop.induct)
  case (1 env f c acc)
  show ?case
  proof (cases "f \<le> c")
    case False
    with "1.prems" show ?thesis by (simp add: scanLoop_done)
  next
    case True
    show ?thesis
    proof (cases "getLogs env f (chunkEnd f c)")
      case (Inl m)
      with True "1.prems" show ?thesis by (auto simp: scanLoop_fail)
    next
      case (Inr logs)
      with True "1.prems" "1.IH" [OF True Inr] show ?thesis
        by (auto simp: scanLoop_step)
    qed
  qed
qed

lemma run_progress_only:
  "\<forall>e \<in> set es. (\<exists>p. e = SetProgress p) \<or> (\<exists>q. e = Call q) \<Longrightarrow>
     \<exists>p. run es s = s\<lparr>progress := p\<rparr>"
proof (induction es arbitrary: s)
  case Nil
  have "run [] s = s\<lparr>progress := progress s\<rparr>" by (simp add: run_def)
  then show ?case by blast
next
  case (Cons e es)
  from Cons.prems have e: "(\<exists>p. e = SetProgress p) \<or> (\<exists>q. e = Call q)" by simp
  from Cons.prems have "\<forall>e \<in> set es. (\<exists>p. e = SetProgress p) \<or> (\<exists>q. e = Call q)" by simp
  from Cons.IH [OF this] obtain p where p: "run es (applyEffect s e) = (applyEffect s e)\<lparr>progress := p\<rparr>"
    by blast
  from e p have "run (e # es) s = s\<lparr>progress := p\<rparr>"
    by (auto simp: run_Cons)
  then show ?case by blast
qed

lemma scanLoop_failed_query_message:
  "(f', t') \<in> set (queries (fst (scanLoop env f c acc))) \<Longrightarrow> getLogs env f' t' = Inl m \<Longrightarrow>
     snd (scanLoop env f c acc) = Inl m"
proof (induction env f c acc rule: scanLoop.induct)
  case (1 env f c acc)
  show ?case
  proof (cases "f \<le> c")
    case False
    with "1.prems" show ?thesis by (simp add: scanLoop_done)
  next
    case True
    show ?thesis
    proof (cases "getLogs env f (chunkEnd f c)")
      case (Inl m)
      with True "1.prems" show ?thesis by (simp add: scanLoop_fail)
    next
      case (Inr logs)
      with True "1.prems" "1.IH" [OF True Inr] show ?thesis
        by (auto simp: scanLoop_step)
    qed
  qed
qed


lemma byEvents_run_error:
  assumes "matchesAddress a" "getBlockNumber env = Inr H" "locateEntity env a = Inr eid"
    "snd (scanLoop env START_BLOCK H []) = Inl m"
  shows "run (checkAllocationsByEvents env a) s =
           s\<lparr>loading := False, result := None, error := ChainReadError m, progress := []\<rparr>"
    and "SetResult (Some r) \<notin> set (checkAllocationsByEvents env a)"
proof -
  obtain es where sl: "scanLoop env START_BLOCK H [] = (es, Inl m)"
    using assms(4) by (cases "scanLoop env START_BLOCK H []") auto
  have es: "\<forall>e \<in> set es. (\<exists>p. e = SetProgress p) \<or> (\<exists>q. e = Call q)"
    using scanLoop_effects [of _ env START_BLOCK H "[]"] sl by simp
  from run_progress_only [OF this] obtain p where
    p: "\<And>s'. \<exists>p. run es s' = s'\<lparr>progress := p\<rparr>" by blast
  obtain p' where p': "run es (s\<lparr>loading := True, error := [], result := None,
      progress := ''Scanning blocks from '' @ showInt START_BLOCK @ '' to '' @ showInt H @ ''...''\<rparr>) =
    s\<lparr>loading := True, error := [], result := None, progress := p'\<rparr>"
    using p [of "s\<lparr>loading := True, error := [], result := None,
      progress := ''Scanning blocks from '' @ showInt START_BLOCK @ '' to '' @ showInt H @ ''...''\<rparr>"]
    by auto
  show "run (checkAllocationsByEvents env a) s =
           s\<lparr>loading := False, result := None, error := ChainReadError m, progress := []\<rparr>"
    using matchesAddress_nonempty [OF assms(1)] assms(1-3) p'
    by (simp add: checkAllocationsByEvents_def sl run_append run_Cons run_Nil)
  show "SetResult (Some r) \<notin> set (checkAllocationsByEvents env a)"
    using matchesAddress_nonempty [OF assms(1)] assms(1-3) es
    by (auto simp: checkAllocationsByEvents_def sl)
qed

lemma queries_append: "queries (xs @ ys) = queries xs @ queries ys"
  by (simp add: queries_def)

lemma queries_other [simp]:
  "queries (SetError m # es) = queries es"
  "queries (SetLoading b # es) = queries es"
  "queries (SetResult r # es) = queries es"
  "queries (Call GetBlockNumber # es) = queries es"
  "queries (Call (EntityByAddress x) # es) = queries es"
  by (simp_all add: queries_def)

lemma byEvents_queries:
  "queries (checkAllocationsByEvents env a) =
     (if matchesAddress a then
        (case getBlockNumber env of
           Inl m \<Rightarrow> []
         | Inr H \<Rightarrow>
             (case locateEntity env a of
                Inl m \<Rightarrow> []
              | Inr eid \<Rightarrow> queries (fst (scanLoop env START_BLOCK H []))))
      else [])"
  by (auto simp: checkAllocationsByEvents_def queries_append matchesAddress_nonempty
      split: sum.splits prod.splits)

lemma byEvents_query_width:
  assumes "(f, t) \<in> set (queries (checkAllocationsByEvents env a))"
  shows "f \<le> t \<and> t - f + 1 \<le> CHUNK_SIZE"
proof -
  have "\<exists>H. (f, t) \<in> set (queries (fst (scanLoop env START_BLOCK H [])))"
    using assms unfolding byEvents_queries
    by (cases "matchesAddress a"; cases "getBlockNumber env"; cases "locateEntity env a") auto
  then obtain H where "(f, t) \<in> set (queries (fst (scanLoop env START_BLOCK H [])))" ..
  with scanLoop_consecutive [of START_BLOCK env H "[]"] show ?thesis
    by (rule consecutiveFrom_width)
qed


lemma sampleScan_run:
  "scanLoop sampleScanEnv START_BLOCK 21399999 [] =
     ([SetProgress ''Scanning blocks 21280000 to 21329999...'', Call (GetLogs 21280000 21329999),
       SetProgress ''Scanning blocks 21330000 to 21379999...'', Call (GetLogs 21330000 21379999),
       SetProgress ''Scanning blocks 21380000 to 21399999...'', Call (GetLogs 21380000 21399999)],
      Inr chainLogs)"
  by (simp add: scanLoop.simps START_BLOCK_def CHUNK_SIZE_def chunkEnd_def sampleScanEnv_def
      chainLogs_def showInt_def digitChar_def)

lemma failingScan_run:
  "scanLoop failingScanEnv START_BLOCK 21399999 [] =
     ([SetProgress ''Scanning blocks 21280000 to 21329999...'', Call (GetLogs 21280000 21329999),
       SetProgress ''Scanning blocks 21330000 to 21379999...'', Call (GetLogs 21330000 21379999)],
      Inl ''query timeout'')"
  by (simp add: scanLoop.simps START_BLOCK_def CHUNK_SIZE_def chunkEnd_def failingScanEnv_def
      chainLogs_def showInt_def digitChar_def)

text \<open>
  C5. The log queries of a scan from block \<open>S\<close> to head \<open>H\<close> are consecutive from
  \<open>S\<close> in ascending order, and none is wider than 50,000 blocks; when \<open>S \<le> H\<close> and
  no query fails they start at \<open>S\<close> and end at \<open>H\<close>, so they partition the closed
  interval. A range of 120,000 blocks is queried in exactly three chunks of
  50,000, 50,000 and 20,000 blocks. The log queries of an invocation are those
  of its scan from \<open>START_BLOCK\<close> to the current block, so no query of an
  invocation is wider than 50,000 blocks.
\<close>

theorem C5_scan_partitions_range:
  "consecutiveFrom S (queries (fst (scanLoop env S H acc))) \<and>
   (\<forall>(f, t) \<in> set (queries (fst (scanLoop env S H acc))). f \<le> t \<and> t - f + 1 \<le> 50000) \<and>
   (S \<le> H \<and> \<not> isl (snd (scanLoop env S H acc)) \<longrightarrow>
      queries (fst (scanLoop env S H acc)) \<noteq> [] \<and>
      fst (hd (queries (fst (scanLoop env S H acc)))) = S \<and>
      snd (last (queries (fst (scanLoop env S H acc)))) = H) \<and>
   ((\<forall>f t. \<not> isl (getLogs env f t)) \<longrightarrow>
      queries (fst (scanLoop env S (S + 119999) acc)) =
        [(S, S + 49999), (S + 50000, S + 99999), (S + 100000, S + 119999)]) \<and>
   (matchesAddress a \<and> getBlockNumber env = Inr H \<and> locateEntity env a = Inr eid \<longrightarrow>
      queries (checkAllocationsByEvents env a) = queries (fst (scanLoop env START_BLOCK H []))) \<and>
   (\<forall>(f, t) \<in> set (queries (checkAllocationsByEvents env a)). f \<le> t \<and> t - f + 1 \<le> 50000)"
proof (intro conjI impI)
  show "queries (checkAllocationsByEvents env a) = queries (fst (scanLoop env START_BLOCK H []))"
    if "matchesAddress a \<and> getBlockNumber env = Inr H \<and> locateEntity env a = Inr eid"
    using that by (simp add: byEvents_queries)
  show "\<forall>(f, t) \<in> set (queries (checkAllocationsByEvents env a)). f \<le> t \<and> t - f + 1 \<le> 50000"
    using byEvents_query_width [of _ _ env a] by (auto simp: CHUNK_SIZE_def)
  show c: "consecutiveFrom S (queries (fst (scanLoop env S H acc)))"
    by (rule scanLoop_consecutive)
  show "\<forall>(f, t) \<in> set (queries (fst (scanLoop env S H acc))). f \<le> t \<and> t - f + 1 \<le> 50000"
    using consecutiveFrom_width [OF c] by (auto simp: CHUNK_SIZE_def)
  show "queries (fst (scanLoop env S (S + 119999) acc)) =
        [(S, S + 49999), (S + 50000, S + 99999), (S + 100000, S + 119999)]"
    if "\<forall>f t. \<not> isl (getLogs env f t)"
    using that by (rule scanLoop_three_chunks)
next
  assume a: "S \<le> H \<and> \<not> isl (snd (scanLoop env S H acc))"
  then obtain out where out: "snd (scanLoop env S H acc) = Inr out"
    by (cases "snd (scanLoop env S H acc)") auto
  from a scanLoop_covers [OF _ out]
  show ne: "queries (fst (scanLoop env S H acc)) \<noteq> []"
    and "snd (last (queries (fst (scanLoop env S H acc)))) = H" by auto
  from scanLoop_consecutive [of S env H acc] ne
  show "fst (hd (queries (fst (scanLoop env S H acc)))) = S"
    by (cases "queries (fst (scanLoop env S H acc))") auto
qed

theorem C5_scan_partitions_range_witness:
  "START_BLOCK \<le> 21399999 \<and>
   \<not> isl (snd (scanLoop sampleScanEnv START_BLOCK 21399999 [])) \<and>
   consecutiveFrom START_BLOCK (queries (fst (scanLoop sampleScanEnv START_BLOCK 21399999 []))) \<and>
   queries (fst (scanLoop sampleScanEnv START_BLOCK 21399999 [])) =
     [(21280000, 21329999), (21330000, 21379999), (21380000, 21399999)] \<and>
   fst (hd (queries (fst (scanLoop sampleScanEnv START_BLOCK 21399999 [])))) = START_BLOCK \<and>
   snd (last (queries (fst (scanLoop sampleScanEnv START_BLOCK 21399999 [])))) = 21399999 \<and>
   matchesAddress sampleAddress \<and> getBlockNumber sampleScanEnv = Inr 21399999 \<and>
   locateEntity sampleScanEnv sampleAddress = Inr sampleEntityID \<and>
   queries (checkAllocationsByEvents sampleScanEnv sampleAddress) =
     [(21280000, 21329999), (21330000, 21379999), (21380000, 21399999)]"
proof -
  have h4: "matchesAddress sampleAddress"
    by (simp add: sampleAddress_def matchesAddress_def isHexDigit_def)
  have h5: "getBlockNumber sampleScanEnv = Inr 21399999" by (simp add: sampleScanEnv_def)
  have h6: "locateEntity sampleScanEnv sampleAddress = Inr sampleEntityID"
    by (simp add: sampleScanEnv_def)
  have h1: "START_BLOCK \<le> 21399999" by (simp add: START_BLOCK_def)
  have h2: "\<not> isl (snd (scanLoop sampleScanEnv START_BLOCK 21399999 []))"
    by (simp add: sampleScan_run)
  have h3: "\<forall>f t. \<not> isl (getLogs sampleScanEnv f t)" by (simp add: sampleScanEnv_def)
  have e: "START_BLOCK + 119999 = 21399999" by (simp add: START_BLOCK_def)
  from C5_scan_partitions_range [of START_BLOCK sampleScanEnv 21399999 "[]" sampleAddress
      sampleEntityID] h1 h2 h3 h4 h5 h6
  show ?thesis by (simp add: e START_BLOCK_def CHUNK_SIZE_def)
qed



text \<open>
  C7. If a chunk query issued by the scan fails, the invocation ends with the
  chain read error carrying the message of that failure and with no result:
  \<open>setResult\<close> is never called with an object, so nothing of the events
  accumulated before the failure reaches the caller.
\<close>

theorem C7_failed_scan_discards_events:
  assumes "matchesAddress a" and "getBlockNumber env = Inr H" and "locateEntity env a = Inr eid"
    and "(f, t) \<in> set (queries (fst (scanLoop env START_BLOCK H [])))"
    and "getLogs env f t = Inl m"
  shows "run (checkAllocationsByEvents env a) s =
           s\<lparr>loading := False, result := None, error := ChainReadError m, progress := []\<rparr> \<and>
         (\<forall>r. SetResult (Some r) \<notin> set (checkAllocationsByEvents env a))"
proof -
  have "snd (scanLoop env START_BLOCK H []) = Inl m"
    using assms(4,5) by (rule scanLoop_failed_query_message)
  from byEvents_run_error [OF assms(1-3) this] show ?thesis by blast
qed

theorem C7_failed_scan_discards_events_witness:
  "matchesAddress sampleAddress \<and> getBlockNumber failingScanEnv = Inr 21399999 \<and>
   locateEntity failingScanEnv sampleAddress = Inr sampleEntityID \<and>
   (21330000, 21379999) \<in> set (queries (fst (scanLoop failingScanEnv START_BLOCK 21399999 []))) \<and>
   getLogs failingScanEnv 21330000 21379999 = Inl ''query timeout'' \<and>
   run (checkAllocationsByEvents failingScanEnv sampleAddress) idleScanUi =
     idleScanUi\<lparr>loading := False, result := None, error := ''Error: query timeout'',
       progress := []\<rparr>"
proof -
  have h1: "matchesAddress sampleAddress"
    by (simp add: sampleAddress_def matchesAddress_def isHexDigit_def)
  have h2: "getBlockNumber failingScanEnv = Inr 21399999" by (simp add: failingScanEnv_def)
  have h3: "locateEntity failingScanEnv sampleAddress = Inr sampleEntityID"
    by (simp add: failingScanEnv_def)
  have h4: "(21330000, 21379999) \<in>
      set (queries (fst (scanLoop failingScanEnv START_BLOCK 21399999 [])))"
    by (simp add: failingScan_run)
  have h5: "getLogs failingScanEnv 21330000 21379999 = Inl ''query timeout''"
    by (simp add: failingScanEnv_def)
  from C7_failed_scan_discards_events [OF h1 h2 h3 h4 h5, of idleScanUi] h1 h2 h3 h4 h5
  show ?thesis by (simp add: ChainReadError_def)
qed

section \<open>Properties of the relay\<close>

text \<open>
  C9 (amended). The relay responds 400 when the \<open>entityId\<close> parameter is missing
  or empty, 500 when the upstream request fails in transport or the upstream
  body is not JSON, and otherwise 200, whatever the upstream status, with the
  data of the upstream body and a permissive cross-origin header; the 400 and
  500 responses carry no such header.
\<close>

theorem C9_relay_responses:
  "(searchParamsGet ps ''entityId'' = None \<or> searchParamsGet ps ''entityId'' = Some [] \<longrightarrow>
      responseStatus (handler up ps) = 400) \<and>
   (searchParamsGet ps ''entityId'' = Some eid \<and> eid \<noteq> [] \<and>
    up (''https://token-api.megaeth.com/api/allocation?entityId='' @ eid) = FetchRejects m \<longrightarrow>
      responseStatus (handler up ps) = 500) \<and>
   (searchParamsGet ps ''entityId'' = Some eid \<and> eid \<noteq> [] \<and>
    up (''https://token-api.megaeth.com/api/allocation?entityId='' @ eid) = FetchResolves r \<and>
    json r = Inl m \<longrightarrow>
      responseStatus (handler up ps) = 500) \<and>
   (searchParamsGet ps ''entityId'' = Some eid \<and> eid \<noteq> [] \<and>
    up (''https://token-api.megaeth.com/api/allocation?entityId='' @ eid) = FetchResolves r \<and>
    json r = Inr d \<longrightarrow>
      handler up ps =
        \<lparr>responseStatus = 200,
         responseHeaders = [(''Content-Type'', ''application/json''),
           (''Access-Control-Allow-Origin'', ''*'')],
         responseBody = DataBody d\<rparr>) \<and>
   (responseStatus (handler up ps) \<noteq> 200 \<longrightarrow>
      responseHeaders (handler up ps) = [(''Content-Type'', ''application/json'')])"
  by (auto simp: handler_def split: option.splits fetch_outcome.splits sum.splits)

theorem C9_relay_responses_witness:
  "searchParamsGet [] ''entityId'' = None \<and>
   responseStatus (handler (\<lambda>url. FetchResolves upstreamAllocation) []) = 400 \<and>
   searchParamsGet [(''entityId'', zeroEntityID)] ''entityId'' = Some zeroEntityID \<and>
   zeroEntityID \<noteq> [] \<and>
   responseStatus (handler (\<lambda>url. FetchRejects ''fetch failed'' :: (api_data option) fetch_outcome)
      [(''entityId'', zeroEntityID)]) = 500 \<and>
   json upstreamHtml = Inl ''Unexpected token < in JSON at position 0'' \<and>
   responseStatus (handler (\<lambda>url. FetchResolves upstreamHtml) [(''entityId'', zeroEntityID)]) = 500 \<and>
   responseHeaders (handler (\<lambda>url. FetchResolves upstreamHtml) [(''entityId'', zeroEntityID)]) =
     [(''Content-Type'', ''application/json'')] \<and>
   handler (\<lambda>url. FetchResolves upstreamAllocation) [(''entityId'', zeroEntityID)] =
     \<lparr>responseStatus = 200,
      responseHeaders = [(''Content-Type'', ''application/json''),
        (''Access-Control-Allow-Origin'', ''*'')],
      responseBody = DataBody (Some \<lparr>usdt_allocation = Some 500, token_allocation = None,
        clearing_price = None\<rparr>)\<rparr>"
  using C9_relay_responses [of "[]" "\<lambda>url. FetchResolves upstreamAllocation" zeroEntityID]
    C9_relay_responses [of "[(''entityId'', zeroEntityID)]"
      "\<lambda>url. FetchRejects ''fetch failed'' :: (api_data option) fetch_outcome" zeroEntityID
      "''fetch failed''"]
    C9_relay_responses [of "[(''entityId'', zeroEntityID)]"
      "\<lambda>url. FetchResolves upstreamHtml" zeroEntityID
      "''Unexpected token < in JSON at position 0''" upstreamHtml]
    C9_relay_responses [of "[(''entityId'', zeroEntityID)]"
      "\<lambda>url. FetchResolves upstreamAllocation" zeroEntityID undefined upstreamAllocation
      "Some \<lparr>usdt_allocation = Some 500, token_allocation = None, clearing_price = None\<rparr>"]
  by (simp add: searchParamsGet_def zeroEntityID_def upstreamHtml_def upstreamAllocation_def)

text \<open>
  The claim as first stated fails: an upstream 404 with a JSON body is relayed
  as 200, an upstream 200 whose body is not JSON is relayed as 500, and an empty
  \<open>entityId\<close> is answered 400.
\<close>

theorem C9_status_not_passed_counterexample:
  "status upstreamNotFound = 404 \<and>
   responseStatus (handler (\<lambda>url. FetchResolves upstreamNotFound)
     [(''entityId'', zeroEntityID)]) = 200 \<and>
   status upstreamHtml = 200 \<and>
   responseStatus (handler (\<lambda>url. FetchResolves upstreamHtml)
     [(''entityId'', zeroEntityID)]) = 500 \<and>
   searchParamsGet [(''entityId'', [])] ''entityId'' = Some [] \<and>
   responseStatus (handler (\<lambda>url. FetchResolves upstreamAllocation) [(''entityId'', [])]) = 400"
  by (simp add: handler_def searchParamsGet_def zeroEntityID_def upstreamNotFound_def
      upstreamHtml_def upstreamAllocation_def)

end
